theory Spec2Isabelle
  imports Complex_Main "HOL-Library.AList" "HOL-Library.Multiset" "HOL-Library.Char_ord" "HOL-Library.List_Lexorder"
    "HOL-Library.Product_Lexorder"
begin

section \<open>BloodGrid server: documents, the store and the request handlers\<close>

text \<open>
  The server is an Express application over four MongoDB collections. Every route handler
  reads parts of the request, performs store operations and sends one reply. The embedding
  follows that shape: a JSON value type, documents as ordered field lists, collections as
  document lists in insertion order, the driver operations the handlers call
  (\<open>findOne\<close>, \<open>find\<close>, \<open>countDocuments\<close>, \<open>insertOne\<close>, \<open>updateOne\<close>) as functions
  on collections, and each handler as a function from the store and the request to the new
  store and the reply.

  Three versions of the server are in the repository: \<open>src/index.js\<close> (the current one) and
  two earlier ones, \<open>src/unnamed/part_000\<close> and \<open>src/unnamed/part_001\<close>. Definitions without
  a suffix embed \<open>src/index.js\<close>; a definition embedding an earlier version carries the
  suffix \<open>_part000\<close> or \<open>_part001\<close>.
\<close>

subsection \<open>JSON values and documents\<close>

text \<open>
  Numbers are integers here: the handlers under study compute with counts, page numbers and
  page sizes only. \<open>JOid\<close> is a driver \<open>ObjectId\<close>; it never comes out of a parsed request
  body. A field that is absent (JavaScript \<open>undefined\<close>) is \<open>None\<close> on lookup.
\<close>

datatype jv =
    JNull
  | JBool bool
  | JNum int
  | JStr string
  | JOid nat
  | JArr "jv list"
  | JObj "(string \<times> jv) list"

type_synonym doc = "(string \<times> jv) list"

definition getf :: "doc \<Rightarrow> string \<Rightarrow> jv option" where
  \<comment> \<open>property read \<open>obj.name\<close>\<close>
  "getf d k = map_of d k"

definition setf :: "string \<Rightarrow> jv \<Rightarrow> doc \<Rightarrow> doc" where
  \<comment> \<open>property write \<open>obj.name = v\<close>: in place when the name exists, appended otherwise\<close>
  "setf k v d = AList.update k v d"

fun truthy :: "jv option \<Rightarrow> bool" where
  \<comment> \<open>JavaScript ToBoolean, as used by \<open>if (x)\<close>, \<open>!x\<close> and \<open>&&\<close>\<close>
  "truthy None = False"
| "truthy (Some JNull) = False"
| "truthy (Some (JBool b)) = b"
| "truthy (Some (JNum n)) = (n \<noteq> 0)"
| "truthy (Some (JStr s)) = (s \<noteq> [])"
| "truthy (Some (JOid _)) = True"
| "truthy (Some (JArr _)) = True"
| "truthy (Some (JObj _)) = True"

fun strict_eq :: "jv option \<Rightarrow> jv option \<Rightarrow> bool" where
  \<comment> \<open>JavaScript \<open>===\<close> between two values that are distinct objects when they are objects:
      primitives compare by value, objects and arrays by reference\<close>
  "strict_eq None None = True"
| "strict_eq (Some JNull) (Some JNull) = True"
| "strict_eq (Some (JBool a)) (Some (JBool b)) = (a = b)"
| "strict_eq (Some (JNum a)) (Some (JNum b)) = (a = b)"
| "strict_eq (Some (JStr a)) (Some (JStr b)) = (a = b)"
| "strict_eq _ _ = False"

subsection \<open>The store\<close>

record store =
  users :: "doc list"
  requests :: "doc list"
  blogs :: "doc list"
  payments :: "doc list"

text \<open>
  Query filters in the handlers are flat equality filters \<open>{ field: value, ... }\<close>. The
  store matches a field when the stored value equals the queried one or is an array that
  contains it; a queried \<open>null\<close> also matches an absent field.
\<close>

fun field_matches :: "jv option \<Rightarrow> jv \<Rightarrow> bool" where
  "field_matches None q = (q = JNull)"
| "field_matches (Some (JArr xs)) q = (JArr xs = q \<or> q \<in> set xs)"
| "field_matches (Some v) q = (v = q)"

definition matches :: "doc \<Rightarrow> doc \<Rightarrow> bool" where
  "matches flt d = list_all (\<lambda>(k, q). field_matches (getf d k) q) flt"

definition find_docs :: "doc \<Rightarrow> doc list \<Rightarrow> doc list" where
  \<comment> \<open>\<open>collection.find(filter).toArray()\<close>\<close>
  "find_docs flt coll = filter (matches flt) coll"

definition findOne :: "doc \<Rightarrow> doc list \<Rightarrow> doc option" where
  "findOne flt coll = List.find (matches flt) coll"

definition countDocuments :: "doc \<Rightarrow> doc list \<Rightarrow> nat" where
  "countDocuments flt coll = length (find_docs flt coll)"

text \<open>
  \<open>insertOne\<close>: the driver gives the document a fresh \<open>ObjectId\<close> when its \<open>_id\<close> is
  absent or \<open>null\<close>; the store refuses a document whose \<open>_id\<close> is already in the
  collection (\<open>None\<close> stands for that exception). The fresh identifier \<open>nid\<close> is an input.
\<close>

definition with_id :: "nat \<Rightarrow> doc \<Rightarrow> doc" where
  "with_id nid d =
     (case getf d ''_id'' of
        None \<Rightarrow> setf ''_id'' (JOid nid) d
      | Some JNull \<Rightarrow> setf ''_id'' (JOid nid) d
      | Some _ \<Rightarrow> d)"

definition insertOne :: "nat \<Rightarrow> doc \<Rightarrow> doc list \<Rightarrow> (doc list \<times> jv) option" where
  "insertOne nid d coll =
     (let d' = with_id nid d
      in case getf d' ''_id'' of
           None \<Rightarrow> None
         | Some i \<Rightarrow>
             if list_ex (\<lambda>e. getf e ''_id'' = Some i) coll then None
             else Some (coll @ [d'], i))"



fun set_fields :: "doc \<Rightarrow> doc \<Rightarrow> doc" where
  "set_fields [] d = d"
| "set_fields ((k, v) # p) d = setf k v (set_fields p d)"

record update_result =
  matchedCount :: nat
  modifiedCount :: nat

fun updateOne :: "doc \<Rightarrow> doc \<Rightarrow> doc list \<Rightarrow> doc list \<times> update_result" where
  "updateOne flt p [] = ([], \<lparr>matchedCount = 0, modifiedCount = 0\<rparr>)"
| "updateOne flt p (d # ds) =
     (if matches flt d
      then (set_fields p d # ds,
            \<lparr>matchedCount = 1, modifiedCount = (if set_fields p d = d then 0 else 1)\<rparr>)
      else (let (ds', r) = updateOne flt p ds in (d # ds', r)))"

subsection \<open>Requests and replies\<close>

text \<open>
  A request carries what the handlers read: the \<open>Authorization\<close> header, the query
  string (values are strings) and the parsed JSON body (an object). A route parameter
  (\<open>:id\<close>, \<open>:email\<close>) is an argument of the handler, since the route only runs when it is
  present. A reply is the status code and the JSON body sent; \<open>NoReply\<close> is a handler whose
  promise rejects outside any \<open>try\<close>, so that nothing is sent. The only store failures
  modelled are those the inputs decide (a duplicate \<open>_id\<close>, an identifier string that is
  no \<open>ObjectId\<close>, a refused cursor); the serialised exception that some 500 replies carry
  beside their message is left out.
\<close>

record request =
  authorization :: "string option"
  query :: "(string \<times> string) list"
  body :: doc

datatype reply = Reply nat jv | NoReply

definition message :: "string \<Rightarrow> jv" where
  "message m = JObj [(''message'', JStr m)]"

subsection \<open>Creating accounts and donation requests\<close>

text \<open>
  \<open>POST /add-user\<close> (\<open>src/index.js\<close> 129-147, the same in both earlier versions): the two
  timestamps are two readings of the clock, \<open>t1\<close> and \<open>t2\<close>.
\<close>

definition add_user :: "string \<Rightarrow> string \<Rightarrow> nat \<Rightarrow> store \<Rightarrow> request \<Rightarrow> store \<times> reply" where
  "add_user t1 t2 nid st req =
     (let userinfo = body req;
          userinfo = setf ''createAt'' (JStr t1) userinfo;
          userinfo = setf ''loginAt'' (JStr t2) userinfo;
          userinfo = setf ''role'' (JStr ''donor'') userinfo;
          userinfo = setf ''status'' (JStr ''active'') userinfo
      in case insertOne nid userinfo (users st) of
           Some (coll, i) \<Rightarrow>
             (st\<lparr>users := coll\<rparr>,
              Reply 201 (JObj [(''insertedId'', i), (''acknowledged'', JBool True),
                               (''message'', JStr ''User has been added successfully.'')]))
         | None \<Rightarrow> (st, Reply 500 (message ''Failed to add the user.'')))"

text \<open>\<open>POST /donation-requests\<close> (\<open>src/index.js\<close> 263-282, the same in \<open>part_000\<close>).\<close>

definition create_donation_request :: "string \<Rightarrow> nat \<Rightarrow> store \<Rightarrow> request \<Rightarrow> store \<times> reply" where
  "create_donation_request now nid st req =
     (let requestData = body req;
          requestData = setf ''createdAt'' (JStr now) requestData;
          requestData = setf ''status'' (JStr ''pending'') requestData
      in case insertOne nid requestData (requests st) of
           Some (coll, i) \<Rightarrow>
             (st\<lparr>requests := coll\<rparr>,
              Reply 201 (JObj [(''acknowledged'', JBool True), (''insertedId'', i),
                               (''message'', JStr ''Donation request has been created.'')]))
         | None \<Rightarrow> (st, Reply 500 (message ''Failed to create donation request.'')))"

subsection \<open>JavaScript strings and numbers\<close>

text \<open>
  \<open>String.prototype.split\<close> with a one-character separator: the pieces between the
  separators, empty pieces included; never the empty list.
\<close>

fun split_on :: "char \<Rightarrow> string \<Rightarrow> string list" where
  "split_on c [] = [[]]"
| "split_on c (x # xs) =
     (if x = c then [] # split_on c xs
      else (case split_on c xs of [] \<Rightarrow> [[x]] | w # ws \<Rightarrow> (x # w) # ws))"

text \<open>
  A JavaScript number as the handlers meet it: an integer or \<open>NaN\<close>. \<open>parseInt\<close> skips
  leading white space, reads a sign, takes radix 16 after \<open>0x\<close> and radix 10 otherwise, and
  reads the longest prefix of digits; no digit gives \<open>NaN\<close>. \<open>toNumber\<close> is the conversion
  that \<open>/\<close> applies to a string operand, for integer literals: the whole trimmed string
  must be a literal, and the empty string is 0. Where these functions give \<open>Fin n\<close> with
  \<open>n\<close> within \<open>int32_max\<close> (below), JavaScript gives the same number. Their \<open>NaN\<close> also
  covers strings on which JavaScript gives a number that is no such integer (a fraction,
  an exponent, a binary or octal literal); no statement below depends on that case: each
  one assumes the parsed value \<open>Fin n\<close>.
\<close>

datatype jsnum = Fin int | NaN

text \<open>
  JavaScript numbers are doubles and the store takes skip and limit as integers. The
  integers of this model agree with both up to \<open>int32_max\<close>: up to there \<open>parseInt\<close>,
  \<open>-\<close>, \<open>*\<close> and \<open>Math.ceil\<close> of a quotient of counts are exact. Statements about parsed
  page numbers, page sizes and counts assume this bound.
\<close>

definition int32_max :: int where
  "int32_max = 2147483647"

definition is_ws :: "char \<Rightarrow> bool" where
  "is_ws c = (c \<in> set [CHR 0x09, CHR 0x0A, CHR 0x0B, CHR 0x0C, CHR 0x0D, CHR '' ''])"

definition digit_val :: "char \<Rightarrow> nat option" where
  "digit_val c =
     (let n = (of_char c :: nat)
      in if 48 \<le> n \<and> n \<le> 57 then Some (n - 48)
         else if 97 \<le> n \<and> n \<le> 102 then Some (n - 87)
         else if 65 \<le> n \<and> n \<le> 70 then Some (n - 55)
         else None)"

fun read_digits :: "nat \<Rightarrow> string \<Rightarrow> nat list" where
  "read_digits r [] = []"
| "read_digits r (c # cs) =
     (case digit_val c of
        Some v \<Rightarrow> if v < r then v # read_digits r cs else []
      | None \<Rightarrow> [])"

definition digits_value :: "nat \<Rightarrow> nat list \<Rightarrow> nat" where
  "digits_value r ds = foldl (\<lambda>a v. a * r + v) 0 ds"

definition read_sign :: "string \<Rightarrow> bool \<times> string" where
  "read_sign s =
     (case s of
        [] \<Rightarrow> (False, [])
      | c # cs \<Rightarrow> if c = CHR ''-'' then (True, cs)
                  else if c = CHR ''+'' then (False, cs) else (False, s))"

definition hex_prefix :: "string \<Rightarrow> string option" where
  "hex_prefix s =
     (case s of
        a # b # cs \<Rightarrow> if a = CHR ''0'' \<and> (b = CHR ''x'' \<or> b = CHR ''X'') then Some cs else None
      | _ \<Rightarrow> None)"

definition parseInt :: "string \<Rightarrow> jsnum" where
  "parseInt s =
     (let (neg, s2) = read_sign (dropWhile is_ws s);
          (r, s3) = (case hex_prefix s2 of Some cs \<Rightarrow> (16, cs) | None \<Rightarrow> (10, s2));
          ds = read_digits r s3
      in if ds = [] then NaN
         else Fin ((if neg then - 1 else 1) * int (digits_value r ds)))"

definition toNumber :: "string \<Rightarrow> jsnum" where
  "toNumber s =
     (let t = rev (dropWhile is_ws (rev (dropWhile is_ws s)))
      in if t = [] then Fin 0
         else (case hex_prefix t of
                 Some cs \<Rightarrow>
                   if cs \<noteq> [] \<and> length (read_digits 16 cs) = length cs
                   then Fin (int (digits_value 16 (read_digits 16 cs))) else NaN
               | None \<Rightarrow>
                   (let (neg, u) = read_sign t
                    in if u \<noteq> [] \<and> length (read_digits 10 u) = length u
                       then Fin ((if neg then - 1 else 1) * int (digits_value 10 (read_digits 10 u)))
                       else NaN)))"

fun num_op :: "(int \<Rightarrow> int \<Rightarrow> int) \<Rightarrow> jsnum \<Rightarrow> jsnum \<Rightarrow> jsnum" where
  "num_op f (Fin a) (Fin b) = Fin (f a b)"
| "num_op f _ _ = NaN"

definition ceil_quot :: "nat \<Rightarrow> jsnum \<Rightarrow> jv" where
  \<comment> \<open>\<open>Math.ceil(total / n)\<close> as the reply carries it: \<open>JSON.stringify\<close> writes \<open>null\<close>
      for \<open>NaN\<close> and \<open>Infinity\<close>\<close>
  "ceil_quot tot n =
     (case n of
        NaN \<Rightarrow> JNull
      | Fin k \<Rightarrow> if k = 0 then JNull else JNum (- ((- int tot) div k)))"

definition param :: "request \<Rightarrow> string \<Rightarrow> string \<Rightarrow> string" where
  \<comment> \<open>a query parameter with the default of the destructuring \<open>{ name = default }\<close>; a
      numeric default is written as its decimal string, which is what \<open>parseInt\<close> and \<open>/\<close>
      make of it\<close>
  "param req name dflt = (case map_of (query req) name of None \<Rightarrow> dflt | Some v \<Rightarrow> v)"

fun undef_null :: "string option \<Rightarrow> jv" where
  \<comment> \<open>a string or \<open>undefined\<close> inside a filter or a written document: the driver
      serialises \<open>undefined\<close> as \<open>null\<close>\<close>
  "undef_null None = JNull"
| "undef_null (Some s) = JStr s"

fun undef_null_jv :: "jv option \<Rightarrow> jv" where
  "undef_null_jv None = JNull"
| "undef_null_jv (Some v) = v"

text \<open>
  \<open>new ObjectId(id)\<close> accepts a string of 24 hexadecimal digits and throws otherwise
  (\<open>None\<close>).
\<close>

definition new_ObjectId :: "string \<Rightarrow> nat option" where
  "new_ObjectId s =
     (let ds = read_digits 16 s
      in if length s = 24 \<and> length ds = 24 then Some (digits_value 16 ds) else None)"

subsection \<open>Cursors: sort, skip, limit\<close>

text \<open>
  A cursor applies its sort first, then skip, then limit, in whatever order the calls were
  chained. The sort key follows the store's cross-type order for scalars (null and absent
  lowest, then numbers, strings, objects, arrays, identifiers, booleans); strings compare
  by character code. Nested values are ordered by their type only, and documents with
  equal keys keep their collection order. A negative or \<open>NaN\<close> skip and a \<open>NaN\<close> limit are
  refused by the store (\<open>None\<close>); limit 0 is no limit and a negative limit counts as its
  absolute value.
\<close>

fun bson_key :: "jv option \<Rightarrow> nat \<times> int \<times> string" where
  "bson_key None = (1, 0, [])"
| "bson_key (Some JNull) = (1, 0, [])"
| "bson_key (Some (JNum n)) = (2, n, [])"
| "bson_key (Some (JStr s)) = (3, 0, s)"
| "bson_key (Some (JObj _)) = (4, 0, [])"
| "bson_key (Some (JArr _)) = (5, 0, [])"
| "bson_key (Some (JOid n)) = (7, int n, [])"
| "bson_key (Some (JBool b)) = (8, (if b then 1 else 0), [])"

fun insert_desc :: "string \<Rightarrow> doc \<Rightarrow> doc list \<Rightarrow> doc list" where
  "insert_desc f x [] = [x]"
| "insert_desc f x (y # ys) =
     (if bson_key (getf y f) \<le> bson_key (getf x f) then x # y # ys
      else y # insert_desc f x ys)"

definition sort_desc :: "string \<Rightarrow> doc list \<Rightarrow> doc list" where
  \<comment> \<open>\<open>.sort({ f: -1 })\<close>\<close>
  "sort_desc f ds = foldr (insert_desc f) ds []"


definition skip_limit :: "jsnum \<Rightarrow> jsnum \<Rightarrow> doc list \<Rightarrow> doc list option" where
  \<comment> \<open>\<open>.skip(s).limit(l).toArray()\<close>\<close>
  "skip_limit s l ds =
     (case (s, l) of
        (Fin a, Fin b) \<Rightarrow>
          if a < 0 then None
          else Some (if b = 0 then drop (nat a) ds else take (nat \<bar>b\<bar>) (drop (nat a) ds))
      | _ \<Rightarrow> None)"

subsection \<open>The middlewares\<close>

text \<open>
  A middleware either calls \<open>next()\<close> or sends a reply, which ends the request.
  \<open>verifyFirebaseToken\<close> (\<open>src/index.js\<close> 44-61) delegates to the identity provider:
  \<open>verifyIdToken\<close> is that collaborator, \<open>None\<close> when its promise rejects (expired token,
  wrong signature, not a token at all). Of the decoded token the server reads the email
  claim only.
\<close>

datatype decoded = Decoded (email_of: "string option")

datatype 'a gate = Next 'a | Sent reply

definition verifyFirebaseToken :: "(string \<Rightarrow> decoded option) \<Rightarrow> request \<Rightarrow> decoded gate" where
  "verifyFirebaseToken verifyIdToken req =
     (case authorization req of
        None \<Rightarrow> Sent (Reply 401 (message ''Unauthorized access''))
      | Some authHeaders \<Rightarrow>
          if authHeaders = [] then Sent (Reply 401 (message ''Unauthorized access''))
          else (let parts = split_on CHR '' '' authHeaders
                in if length parts < 2 \<or> parts ! 1 = []
                   then Sent (Reply 401 (message ''Unauthorized access.''))
                   else (case verifyIdToken (parts ! 1) of
                           Some d \<Rightarrow> Next d
                         | None \<Rightarrow> Sent (Reply 403 (message ''Forbidden access.'')))))"

definition verifyAdmin :: "store \<Rightarrow> decoded \<Rightarrow> unit gate" where
  \<comment> \<open>\<open>src/index.js\<close> 62-71\<close>
  "verifyAdmin st d =
     (case findOne [(''email'', undef_null (email_of d))] (users st) of
        None \<Rightarrow> Sent (Reply 403 (message ''Forbidden access.''))
      | Some user \<Rightarrow>
          if \<not> strict_eq (getf user ''role'') (Some (JStr ''admin''))
          then Sent (Reply 403 (message ''Forbidden access.''))
          else Next ())"

definition verifyAdminVolunteer :: "store \<Rightarrow> decoded \<Rightarrow> unit gate" where
  \<comment> \<open>\<open>src/index.js\<close> 72-93\<close>
  "verifyAdminVolunteer st d =
     (case email_of d of
        None \<Rightarrow> Sent (Reply 401 (message ''Unauthorized access: No email in token.''))
      | Some e \<Rightarrow>
          if e = [] then Sent (Reply 401 (message ''Unauthorized access: No email in token.''))
          else (case findOne [(''email'', JStr e)] (users st) of
                  None \<Rightarrow> Sent (Reply 403 (message ''Forbidden access: Admin or Volunteer only.''))
                | Some user \<Rightarrow>
                    if \<not> strict_eq (getf user ''role'') (Some (JStr ''admin''))
                       \<and> \<not> strict_eq (getf user ''role'') (Some (JStr ''volunteer''))
                    then Sent (Reply 403 (message ''Forbidden access: Admin or Volunteer only.''))
                    else Next ()))"

definition verifyEmailQueryMatch :: "request \<Rightarrow> decoded \<Rightarrow> unit gate" where
  \<comment> \<open>\<open>src/index.js\<close> 104-114\<close>
  "verifyEmailQueryMatch req d =
     (case map_of (query req) ''email'' of
        None \<Rightarrow> Sent (Reply 403 (message ''Forbidden access: Email mismatch''))
      | Some queryEmail \<Rightarrow>
          if queryEmail = [] \<or> Some queryEmail \<noteq> email_of d
          then Sent (Reply 403 (message ''Forbidden access: Email mismatch''))
          else Next ())"

fun sent_status :: "'a gate \<Rightarrow> nat option" where
  \<comment> \<open>the status code with which a middleware ended the request, if it did\<close>
  "sent_status (Sent (Reply c b)) = Some c"
| "sent_status _ = None"

subsection \<open>Profile update\<close>

text \<open>
  \<open>PUT /user/update/:email\<close> (\<open>src/index.js\<close> 237-259; the same in both earlier versions).
  The route has no middleware. The body is handed to \<open>$set\<close> as it is; the store accepts an
  empty \<open>$set\<close> and changes nothing.
\<close>

definition user_update :: "store \<Rightarrow> string \<Rightarrow> request \<Rightarrow> store \<times> reply" where
  "user_update st email req =
     (let updatedData = body req;
          (coll, result) = updateOne [(''email'', JStr email)] updatedData (users st)
      in if modifiedCount result > 0
         then (st\<lparr>users := coll\<rparr>, Reply 200 (message ''Profile updated successfully''))
         else (st\<lparr>users := coll\<rparr>, Reply 404 (message ''User not found or no changes made'')))"

subsection \<open>Claiming a donation request\<close>

text \<open>
  \<open>PATCH /donation-requests/:id/donate\<close>. In \<open>src/index.js\<close> (337-379) the handler builds the
  update from the body and filters on the identifier alone.
\<close>

fun field_if :: "string \<Rightarrow> jv option \<Rightarrow> doc" where
  \<comment> \<open>\<open>if (v) updateFields.k = v\<close> on the empty object\<close>
  "field_if k None = []"
| "field_if k (Some v) = (if truthy (Some v) then [(k, v)] else [])"

fun donor_if :: "jv option \<Rightarrow> jv option \<Rightarrow> doc" where
  "donor_if (Some n) (Some e) =
     (if truthy (Some n) \<and> truthy (Some e)
      then [(''donor'', JObj [(''name'', n), (''email'', e)])] else [])"
| "donor_if _ _ = []"

definition donate :: "store \<Rightarrow> string \<Rightarrow> request \<Rightarrow> store \<times> reply" where
  "donate st rid req =
     (let status = getf (body req) ''status'';
          donorName = getf (body req) ''donorName'';
          donorEmail = getf (body req) ''donorEmail'';
          updateFields = field_if ''status'' status @ donor_if donorName donorEmail
      in if length updateFields = 0
         then (st, Reply 400 (message ''Nothing to update. Provide status or donor info.''))
         else (case new_ObjectId rid of
                 None \<Rightarrow> (st, Reply 500 (message ''Error updating donation request.''))
               | Some oid \<Rightarrow>
                   (let (coll, updateResult) =
                          updateOne [(''_id'', JOid oid)] updateFields (requests st)
                    in if modifiedCount updateResult = 0
                       then (st\<lparr>requests := coll\<rparr>,
                             Reply 400 (message
                               ''No changes applied. The request might not exist or is already updated.''))
                       else (st\<lparr>requests := coll\<rparr>,
                             Reply 200 (message ''Donation request updated successfully.'')))))"

text \<open>
  In \<open>src/unnamed/part_000\<close> (196-227) the same route filters on the identifier and on
  \<open>status: "pending"\<close>, and always writes \<open>inprogress\<close> with the donor sub-record (under the
  field name \<open>donar\<close>).
\<close>

definition donate_part000 :: "store \<Rightarrow> string \<Rightarrow> request \<Rightarrow> store \<times> reply" where
  "donate_part000 st rid req =
     (let donorInfo = body req
      in case new_ObjectId rid of
           None \<Rightarrow> (st, Reply 500 (message ''Error updating request.''))
         | Some oid \<Rightarrow>
             (let (coll, updateResult) =
                    updateOne [(''_id'', JOid oid), (''status'', JStr ''pending'')]
                      [(''status'', JStr ''inprogress''),
                       (''donar'', JObj [(''donorName'', undef_null_jv (getf donorInfo ''donorName'')),
                                         (''donorEmail'', undef_null_jv (getf donorInfo ''donorEmail''))])]
                      (requests st)
              in if modifiedCount updateResult = 0
                 then (st\<lparr>requests := coll\<rparr>,
                       Reply 400 (message
                         ''Unable to confirm donation. It may have already been claimed.''))
                 else (st\<lparr>requests := coll\<rparr>,
                       Reply 200 (message ''Donation confirmed. Status set to inprogress.''))))"

subsection \<open>Listing a requester's donation requests\<close>

text \<open>
  \<open>GET /my-donation-requests/user\<close> (\<open>src/index.js\<close> 310-335). The handler has no \<open>try\<close>:
  when the store refuses the cursor nothing is sent. The route runs it behind
  \<open>verifyFirebaseToken\<close> and \<open>verifyEmailQueryMatch\<close>.
\<close>

definition requester_query :: "request \<Rightarrow> doc" where
  \<comment> \<open>\<open>const query = { requesterEmail: email }; if (status) query.status = status;\<close>\<close>
  "requester_query req =
     (''requesterEmail'', undef_null (map_of (query req) ''email''))
     # (case map_of (query req) ''status'' of
          None \<Rightarrow> []
        | Some s \<Rightarrow> if s \<noteq> [] then [(''status'', JStr s)] else [])"

definition my_donation_requests :: "store \<Rightarrow> request \<Rightarrow> reply" where
  "my_donation_requests st req =
     (let page = param req ''page'' ''1'';
          limit = param req ''limit'' ''5'';
          parsedLimit = parseInt limit;
          skip = num_op (*) (num_op (-) (parseInt page) (Fin 1)) parsedLimit;
          qry = requester_query req;
          tot = countDocuments qry (requests st)
      in case skip_limit skip parsedLimit (sort_desc ''createdAt'' (find_docs qry (requests st))) of
           None \<Rightarrow> NoReply
         | Some rs \<Rightarrow>
             Reply 200 (JObj [(''requests'', JArr (map JObj rs)),
                              (''totalPages'', ceil_quot tot parsedLimit)]))"

definition route_my_donation_requests ::
  "(string \<Rightarrow> decoded option) \<Rightarrow> store \<Rightarrow> request \<Rightarrow> reply" where
  "route_my_donation_requests verifyIdToken st req =
     (case verifyFirebaseToken verifyIdToken req of
        Sent r \<Rightarrow> r
      | Next d \<Rightarrow>
          (case verifyEmailQueryMatch req d of
             Sent r \<Rightarrow> r
           | Next _ \<Rightarrow> my_donation_requests st req))"

subsection \<open>Administration\<close>

text \<open>
  \<open>GET /admin/users\<close> (\<open>src/index.js\<close> 454-480) and \<open>GET /admin/donation-requests\<close>
  (483-509): the page is read with the status filter, the total is counted with no filter,
  and \<open>totalPages\<close> divides by the raw \<open>limit\<close>. Both handlers run inside \<open>try\<close>.
\<close>

definition status_filter :: "request \<Rightarrow> doc" where
  \<comment> \<open>\<open>const filter = status !== "all" ? { status } : {}\<close>, with \<open>status = "all"\<close>
      when the query has none\<close>
  "status_filter req =
     (let status = param req ''status'' ''all''
      in if status \<noteq> ''all'' then [(''status'', JStr status)] else [])"

definition admin_users :: "store \<Rightarrow> request \<Rightarrow> reply" where
  "admin_users st req =
     (let page = param req ''page'' ''1'';
          limit = param req ''limit'' ''10'';
          flt = status_filter req;
          tot = countDocuments [] (users st)
      in case skip_limit (num_op (*) (num_op (-) (parseInt page) (Fin 1)) (parseInt limit))
                (parseInt limit) (find_docs flt (users st)) of
           None \<Rightarrow> Reply 500 (JObj [(''error'', JStr ''Failed to fetch users.'')])
         | Some us \<Rightarrow>
             Reply 200 (JObj [(''users'', JArr (map JObj us)),
                              (''totalPages'', ceil_quot tot (toNumber limit)),
                              (''total'', JNum (int tot))]))"

definition admin_donation_requests :: "store \<Rightarrow> request \<Rightarrow> reply" where
  "admin_donation_requests st req =
     (let page = param req ''page'' ''1'';
          limit = param req ''limit'' ''10'';
          flt = status_filter req;
          tot = countDocuments [] (requests st)
      in case skip_limit (num_op (*) (num_op (-) (parseInt page) (Fin 1)) (parseInt limit))
                (parseInt limit) (find_docs flt (requests st)) of
           None \<Rightarrow> Reply 500 (JObj [(''error'', JStr ''Failed to fetch donation requests.'')])
         | Some rs \<Rightarrow>
             Reply 200 (JObj [(''requests'', JArr (map JObj rs)),
                              (''totalPages'', ceil_quot tot (toNumber limit))]))"

definition fundraiser_payments :: "store \<Rightarrow> reply" where
  \<comment> \<open>\<open>src/index.js\<close> 753-764\<close>
  "fundraiser_payments st = Reply 200 (JArr (map JObj (sort_desc ''paidAt'' (find_docs [] (payments st)))))"

text \<open>
  The routes as \<open>src/index.js\<close> registers them. \<open>GET /admin/users\<close> and
  \<open>GET /fundraiser-payments\<close> are registered with \<open>verifyFirebaseToken, verifyAdmin\<close>,
  \<open>GET /admin/donation-requests\<close> with \<open>verifyFirebaseToken, verifyAdminVolunteer\<close>, and
  \<open>PATCH /admin/users/:id\<close> (511-544) with its handler alone.
\<close>

definition route_admin_users :: "(string \<Rightarrow> decoded option) \<Rightarrow> store \<Rightarrow> request \<Rightarrow> reply" where
  "route_admin_users verifyIdToken st req =
     (case verifyFirebaseToken verifyIdToken req of
        Sent r \<Rightarrow> r
      | Next d \<Rightarrow> (case verifyAdmin st d of Sent r \<Rightarrow> r | Next _ \<Rightarrow> admin_users st req))"

definition route_fundraiser_payments ::
  "(string \<Rightarrow> decoded option) \<Rightarrow> store \<Rightarrow> request \<Rightarrow> reply" where
  "route_fundraiser_payments verifyIdToken st req =
     (case verifyFirebaseToken verifyIdToken req of
        Sent r \<Rightarrow> r
      | Next d \<Rightarrow> (case verifyAdmin st d of Sent r \<Rightarrow> r | Next _ \<Rightarrow> fundraiser_payments st))"

definition route_admin_donation_requests ::
  "(string \<Rightarrow> decoded option) \<Rightarrow> store \<Rightarrow> request \<Rightarrow> reply" where
  "route_admin_donation_requests verifyIdToken st req =
     (case verifyFirebaseToken verifyIdToken req of
        Sent r \<Rightarrow> r
      | Next d \<Rightarrow>
          (case verifyAdminVolunteer st d of
             Sent r \<Rightarrow> r
           | Next _ \<Rightarrow> admin_donation_requests st req))"

definition patch_admin_users :: "store \<Rightarrow> string \<Rightarrow> request \<Rightarrow> store \<times> reply" where
  "patch_admin_users st uid req =
     (let updates = body req
      in if \<not> truthy (getf updates ''role'') \<and> \<not> truthy (getf updates ''status'')
         then (st, Reply 400 (JObj [(''error'', JStr ''No valid fields to update.'')]))
         else (case new_ObjectId uid of
                 None \<Rightarrow> (st, Reply 500 (JObj [(''error'', JStr ''Failed to update user.'')]))
               | Some oid \<Rightarrow>
                   (let updateDoc = field_if ''role'' (getf updates ''role'')
                                    @ field_if ''status'' (getf updates ''status'');
                        (coll, result) = updateOne [(''_id'', JOid oid)] updateDoc (users st)
                    in if matchedCount result = 0
                       then (st\<lparr>users := coll\<rparr>,
                             Reply 404 (JObj [(''error'', JStr ''User not found.'')]))
                       else (st\<lparr>users := coll\<rparr>,
                             Reply 200 (JObj [(''message'', JStr ''User updated successfully.''),
                                              (''modifiedCount'', JNum (int (modifiedCount result)))])))))"

definition route_patch_admin_users ::
  "(string \<Rightarrow> decoded option) \<Rightarrow> store \<Rightarrow> string \<Rightarrow> request \<Rightarrow> store \<times> reply" where
  \<comment> \<open>no middleware is registered on this route: the provider and the
      \<open>Authorization\<close> header are never consulted\<close>
  "route_patch_admin_users verifyIdToken st uid req = patch_admin_users st uid req"

subsection \<open>Blog update\<close>


subsection \<open>The request collection in \<open>part_000\<close>\<close>

text \<open>
  The two operations of \<open>src/unnamed/part_000\<close> that write the request collection, and the
  store after a sequence of them. A request has left \<open>pending\<close> when the claim filter
  \<open>status: "pending"\<close> no longer matches it.
\<close>

datatype op000 = Create string nat request | Claim string request

fun step000 :: "store \<Rightarrow> op000 \<Rightarrow> store" where
  "step000 st (Create now nid req) = fst (create_donation_request now nid st req)"
| "step000 st (Claim rid req) = fst (donate_part000 st rid req)"

definition left_pending :: "doc \<Rightarrow> bool" where
  "left_pending d = (\<not> field_matches (getf d ''status'') (JStr ''pending''))"

subsection \<open>The status test of the blog update\<close>


subsection \<open>Example stores and requests\<close>

text \<open>Concrete inputs on which the theorems below are instantiated and the handlers run.\<close>

definition empty_store :: store where
  "empty_store = \<lparr>users = [], requests = [], blogs = [], payments = []\<rparr>"

definition forged_payload :: request where
  \<comment> \<open>a creation payload that tries to set the server-assigned fields\<close>
  "forged_payload = \<lparr>authorization = None, query = [],
     body = [(''email'', JStr ''a@x.org''), (''role'', JStr ''admin''),
             (''status'', JStr ''done'')]\<rparr>"

definition provider :: "string \<Rightarrow> decoded option" where
  \<comment> \<open>an identity provider that knows two tokens and rejects everything else\<close>
  "provider t =
     (if t = ''tok-admin'' then Some (Decoded (Some ''root@x.org''))
      else if t = ''tok-donor'' then Some (Decoded (Some ''a@x.org''))
      else None)"

definition with_header :: "string \<Rightarrow> request" where
  "with_header h = \<lparr>authorization = Some h, query = [], body = []\<rparr>"

definition account :: "nat \<Rightarrow> string \<Rightarrow> string \<Rightarrow> string \<Rightarrow> doc" where
  "account n mail role status =
     [(''_id'', JOid n), (''email'', JStr mail), (''role'', JStr role), (''status'', JStr status)]"

definition users_store :: "doc list \<Rightarrow> store" where
  "users_store ds = \<lparr>users = ds, requests = [], blogs = [], payments = []\<rparr>"

definition accounts_store :: store where
  "accounts_store = users_store
      [account 1 ''a@x.org'' ''donor'' ''active'',
       account 2 ''root@x.org'' ''admin'' ''active'',
       account 3 ''b@x.org'' ''donor'' ''blocked'']"

definition anonymous_promotion :: request where
  \<comment> \<open>no \<open>Authorization\<close> header; the body asks for the admin role\<close>
  "anonymous_promotion = \<lparr>authorization = None, query = [], body = [(''role'', JStr ''admin'')]\<rparr>"

definition request_doc :: "string \<Rightarrow> doc \<Rightarrow> doc" where
  "request_doc status extra =
     [(''_id'', JOid 1), (''requesterEmail'', JStr ''r@x.org''), (''status'', JStr status),
      (''createdAt'', JStr ''2025-01-01T00:00:00.000Z'')] @ extra"

definition requests_store :: "doc list \<Rightarrow> store" where
  "requests_store ds = \<lparr>users = [], requests = ds, blogs = [], payments = []\<rparr>"

definition claim_by :: "string \<Rightarrow> string \<Rightarrow> request" where
  \<comment> \<open>the body a donor sends to \<open>PATCH /donation-requests/:id/donate\<close>\<close>
  "claim_by name mail = \<lparr>authorization = None, query = [],
     body = [(''status'', JStr ''inprogress''), (''donorName'', JStr name),
             (''donorEmail'', JStr mail)]\<rparr>"

definition donor_rec :: "string \<Rightarrow> string \<Rightarrow> doc" where
  "donor_rec name mail = [(''donor'', JObj [(''name'', JStr name), (''email'', JStr mail)])]"





definition with_query :: "(string \<times> string) list \<Rightarrow> request" where
  "with_query q = \<lparr>authorization = None, query = q, body = []\<rparr>"



section \<open>Properties\<close>

subsection \<open>Documents and store operations\<close>

lemma getf_setf: "getf (setf k v d) k' = (if k' = k then Some v else getf d k')"
  by (simp add: getf_def setf_def update_conv')

lemma insertOne_Some:
  "insertOne nid d coll = Some (coll', i) \<Longrightarrow>
     coll' = coll @ [with_id nid d] \<and> getf (with_id nid d) ''_id'' = Some i"
  by (auto simp: insertOne_def Let_def split: option.splits if_splits)

lemma getf_with_id: "k \<noteq> ''_id'' \<Longrightarrow> getf (with_id nid d) k = getf d k"
  by (auto simp: with_id_def getf_setf split: option.splits jv.splits)

lemma getf_set_fields:
  "getf (set_fields p d) k = (case getf p k of Some v \<Rightarrow> Some v | None \<Rightarrow> getf d k)"
  by (induction p d rule: set_fields.induct) (auto simp: getf_setf, auto simp: getf_def)

lemma updateOne_none:
  "findOne flt ds = None \<Longrightarrow> updateOne flt p ds = (ds, \<lparr>matchedCount = 0, modifiedCount = 0\<rparr>)"
  by (induction ds) (auto simp: findOne_def split: if_splits)

lemma updateOne_some:
  "findOne flt ds = Some d \<Longrightarrow>
     \<exists>i<length ds. ds ! i = d \<and> matches flt d \<and> (\<forall>j<i. \<not> matches flt (ds ! j)) \<and>
       updateOne flt p ds =
         (ds[i := set_fields p d],
          \<lparr>matchedCount = 1, modifiedCount = (if set_fields p d = d then 0 else 1)\<rparr>)"
proof (induction ds)
  case Nil
  then show ?case by (simp add: findOne_def)
next
  case (Cons a ds)
  show ?case
  proof (cases "matches flt a")
    case True
    with Cons.prems have "a = d" by (simp add: findOne_def)
    with True show ?thesis by (intro exI [of _ 0]) simp
  next
    case False
    with Cons.prems have "findOne flt ds = Some d" by (simp add: findOne_def)
    from Cons.IH [OF this] obtain i where i: "i < length ds" "ds ! i = d" "matches flt d"
      "\<forall>j<i. \<not> matches flt (ds ! j)"
      "updateOne flt p ds = (ds[i := set_fields p d],
          \<lparr>matchedCount = 1, modifiedCount = (if set_fields p d = d then 0 else 1)\<rparr>)"
      by blast
    have "\<forall>j<Suc i. \<not> matches flt ((a # ds) ! j)"
      using False i(4) by (auto simp: less_Suc_eq_0_disj)
    with i False show ?thesis by (intro exI [of _ "Suc i"]) simp
  qed
qed

lemma updateOne_length: "length (fst (updateOne flt p ds)) = length ds"
  by (induction ds) (auto split: prod.splits)

lemma updateOne_other:
  "\<not> matches flt (ds ! i) \<Longrightarrow> i < length ds \<Longrightarrow> fst (updateOne flt p ds) ! i = ds ! i"
proof (induction ds arbitrary: i)
  case Nil
  then show ?case by simp
next
  case (Cons a ds)
  then show ?case by (cases i) (auto split: prod.splits)
qed

lemma split_on_none: "c \<notin> set a \<Longrightarrow> split_on c a = [a]"
  by (induction a) auto

lemma split_on_append: "c \<notin> set a \<Longrightarrow> split_on c (a @ c # b) = a # split_on c b"
  by (induction a) auto

lemma split_on_second:
  assumes "c \<notin> set a" "c \<notin> set t" "r = [] \<or> hd r = c"
  shows "length (split_on c (a @ c # t @ r)) \<ge> 2 \<and> split_on c (a @ c # t @ r) ! 1 = t"
proof (cases r)
  case Nil
  with assms show ?thesis by (simp add: split_on_append split_on_none)
next
  case (Cons x xs)
  with assms have "r = c # xs" by simp
  with assms show ?thesis by (simp add: split_on_append)
qed

lemma strict_eq_str: "strict_eq x (Some (JStr s)) = (x = Some (JStr s))"
  by (cases "(x, Some (JStr s))" rule: strict_eq.cases) auto






lemma ceil_quot_pos: "1 \<le> l \<Longrightarrow> ceil_quot n (Fin l) = JNum \<lceil>real n / real_of_int l\<rceil>"
  using ceiling_divide_eq_div [of "int n" l, where ?'a = real]
  by (simp add: ceil_quot_def)

lemma find_docs_all: "find_docs [] coll = coll"
  by (simp add: find_docs_def matches_def)

lemma length_find_docs: "length (find_docs flt coll) \<le> length coll"
  by (simp add: find_docs_def)

lemma skip_limit_page:
  assumes "1 \<le> p" "1 \<le> l"
  shows "skip_limit (Fin ((p - 1) * l)) (Fin l) ds =
      Some (take (nat l) (drop (nat ((p - 1) * l)) ds))"
proof -
  have "0 \<le> (p - 1) * l"
    using assms by (intro mult_nonneg_nonneg) auto
  then show ?thesis using assms(2) by (simp add: skip_limit_def)
qed

subsection \<open>Server-assigned fields at creation\<close>

text \<open>
  Claim C5. Whatever the payload holds, a create operation either fails as a whole (the
  store refuses the insert, reply 500, nothing stored) or appends exactly one document whose
  server-assigned fields have the mandated values: role \<open>donor\<close> and status \<open>active\<close> for an
  account, status \<open>pending\<close> for a donation request.
\<close>

theorem created_fields_server_assigned:
  "(case add_user ta tb nid st req of (st', r) \<Rightarrow>
      (r = Reply 500 (message ''Failed to add the user.'') \<and> st' = st) \<or>
      (\<exists>d b. r = Reply 201 b \<and> users st' = users st @ [d]
          \<and> getf d ''role'' = Some (JStr ''donor'')
          \<and> getf d ''status'' = Some (JStr ''active'')))
   \<and> (case create_donation_request now nid st req of (st', r) \<Rightarrow>
      (r = Reply 500 (message ''Failed to create donation request.'') \<and> st' = st) \<or>
      (\<exists>d b. r = Reply 201 b \<and> requests st' = requests st @ [d]
          \<and> getf d ''status'' = Some (JStr ''pending'')))"
  by (auto simp: add_user_def create_donation_request_def Let_def getf_with_id getf_setf
      split: option.splits dest!: insertOne_Some)

theorem created_fields_server_assigned_witness:
  "users (fst (add_user ''t1'' ''t2'' 7 empty_store forged_payload)) =
     [[(''email'', JStr ''a@x.org''), (''role'', JStr ''donor''), (''status'', JStr ''active''),
       (''createAt'', JStr ''t1''), (''loginAt'', JStr ''t2''), (''_id'', JOid 7)]]
   \<and> requests (fst (create_donation_request ''t1'' 7 empty_store forged_payload)) =
     [[(''email'', JStr ''a@x.org''), (''role'', JStr ''admin''), (''status'', JStr ''pending''),
       (''createdAt'', JStr ''t1''), (''_id'', JOid 7)]]"
  using created_fields_server_assigned [where ta = "''t1''" and tb = "''t2''" and nid = 7
      and st = empty_store and req = forged_payload and now = "''t1''"]
  by (simp add: add_user_def create_donation_request_def Let_def insertOne_def with_id_def
      getf_def setf_def empty_store_def forged_payload_def message_def)

text \<open>
  The create operations do succeed: a payload without \<open>_id\<close> and an identifier that is
  not in the collection give the reply 201.
\<close>

lemma add_user_succeeds:
  assumes "getf (body req) ''_id'' = None"
    and "\<not> list_ex (\<lambda>e. getf e ''_id'' = Some (JOid nid)) (users st)"
  shows "\<exists>st' b. add_user ta tb nid st req = (st', Reply 201 b)"
  using assms
  by (auto simp: add_user_def Let_def insertOne_def with_id_def getf_setf split: option.splits)

lemma create_donation_request_succeeds:
  assumes "getf (body req) ''_id'' = None"
    and "\<not> list_ex (\<lambda>e. getf e ''_id'' = Some (JOid nid)) (requests st)"
  shows "\<exists>st' b. create_donation_request now nid st req = (st', Reply 201 b)"
  using assms
  by (auto simp: create_donation_request_def Let_def insertOne_def with_id_def getf_setf
      split: option.splits)

subsection \<open>The identity gate\<close>

text \<open>
  Claim C3, against the claim as stated: a token that the provider rejects is answered
  with 403, not with 401.
\<close>

theorem rejected_token_is_forbidden:
  "provider ''expired'' = None
   \<and> verifyFirebaseToken provider (with_header ''Bearer expired'') =
       Sent (Reply 403 (message ''Forbidden access.''))
   \<and> sent_status (verifyFirebaseToken provider (with_header ''Bearer expired'')) \<noteq> Some 401"
  by (simp add: verifyFirebaseToken_def provider_def with_header_def Let_def)

text \<open>
  Claim C3, amended. The gate answers 401 when the \<open>Authorization\<close> header is missing, has
  no space, or has an empty second space-separated part. When the header carries a token
  (its second part), the provider decides: a rejected token is answered with 403
  \<open>Forbidden access.\<close>, an accepted one lets the request through with the decoded claims.
\<close>

theorem identity_gate_statuses:
  "verifyFirebaseToken v (req\<lparr>authorization := None\<rparr>) =
      Sent (Reply 401 (message ''Unauthorized access''))
   \<and> (CHR '' '' \<notin> set h \<longrightarrow>
        sent_status (verifyFirebaseToken v (req\<lparr>authorization := Some h\<rparr>)) = Some 401)
   \<and> (CHR '' '' \<notin> set scheme \<and> CHR '' '' \<notin> set tok \<and> (rest = [] \<or> hd rest = CHR '' '') \<longrightarrow>
        verifyFirebaseToken v (req\<lparr>authorization := Some (scheme @ CHR '' '' # tok @ rest)\<rparr>) =
          (if tok = [] then Sent (Reply 401 (message ''Unauthorized access.''))
           else case v tok of
                  None \<Rightarrow> Sent (Reply 403 (message ''Forbidden access.''))
                | Some d \<Rightarrow> Next d))"
proof (intro conjI impI)
  show "verifyFirebaseToken v (req\<lparr>authorization := None\<rparr>) =
      Sent (Reply 401 (message ''Unauthorized access''))"
    by (simp add: verifyFirebaseToken_def)
next
  assume "CHR '' '' \<notin> set h"
  then show "sent_status (verifyFirebaseToken v (req\<lparr>authorization := Some h\<rparr>)) = Some 401"
    by (simp add: verifyFirebaseToken_def Let_def split_on_none)
next
  assume a: "CHR '' '' \<notin> set scheme \<and> CHR '' '' \<notin> set tok \<and> (rest = [] \<or> hd rest = CHR '' '')"
  then have "length (split_on CHR '' '' (scheme @ CHR '' '' # tok @ rest)) \<ge> 2
      \<and> split_on CHR '' '' (scheme @ CHR '' '' # tok @ rest) ! 1 = tok"
    by (intro split_on_second) auto
  then show "verifyFirebaseToken v (req\<lparr>authorization := Some (scheme @ CHR '' '' # tok @ rest)\<rparr>) =
          (if tok = [] then Sent (Reply 401 (message ''Unauthorized access.''))
           else case v tok of
                  None \<Rightarrow> Sent (Reply 403 (message ''Forbidden access.''))
                | Some d \<Rightarrow> Next d)"
    by (auto simp: verifyFirebaseToken_def Let_def split: option.splits)
qed

theorem identity_gate_statuses_witness:
  "verifyFirebaseToken provider (with_header ''Bearer tok-donor'') = Next (Decoded (Some ''a@x.org''))
   \<and> verifyFirebaseToken provider (with_header ''Bearer expired'') =
       Sent (Reply 403 (message ''Forbidden access.''))
   \<and> sent_status (verifyFirebaseToken provider (with_header ''Bearer'')) = Some 401"
  using identity_gate_statuses [where v = provider and req = "with_header []"
      and h = "''Bearer''" and scheme = "''Bearer''" and tok = "''tok-donor''" and rest = "[]"]
    identity_gate_statuses [where v = provider and req = "with_header []"
      and h = "''Bearer''" and scheme = "''Bearer''" and tok = "''expired''" and rest = "[]"]
  by (simp add: with_header_def provider_def)

subsection \<open>Profile update with an empty patch\<close>

text \<open>
  Claim C7, against the claim as stated: for an existing account the empty patch is
  answered with status 404, the reply of the not-found branch, not with a success.
\<close>

theorem empty_patch_existing_account_404:
  "findOne [(''email'', JStr ''a@x.org'')] (users accounts_store) \<noteq> None
   \<and> user_update accounts_store ''a@x.org'' \<lparr>authorization = None, query = [], body = []\<rparr> =
       (accounts_store, Reply 404 (message ''User not found or no changes made''))"
  by code_simp

text \<open>
  Claim C7, amended. For every store and every email, the profile update with an empty
  patch leaves the whole store unchanged and is answered with status 404 and the message
  \<open>User not found or no changes made\<close>, whether or not the account exists.
\<close>

theorem empty_patch_changes_nothing:
  "user_update st email (req\<lparr>body := []\<rparr>) =
     (st, Reply 404 (message ''User not found or no changes made''))"
proof (cases "findOne [(''email'', JStr email)] (users st)")
  case None
  then show ?thesis by (simp add: user_update_def updateOne_none)
next
  case (Some d)
  from updateOne_some [OF this, of "[]"] obtain i where "i < length (users st)" "users st ! i = d"
    "updateOne [(''email'', JStr email)] [] (users st) =
       ((users st)[i := d], \<lparr>matchedCount = 1, modifiedCount = 0\<rparr>)"
    by auto
  then show ?thesis by (simp add: user_update_def list_update_same_conv)
qed

subsection \<open>Admin-gated routes\<close>

text \<open>
  The two listing routes are behind both middlewares: once the identity gate has let the
  request through, the reply is 403 unless the account stored under the token's email has
  the role \<open>admin\<close>, and it is the handler's reply when it has.
\<close>

lemma admin_listings_gated:
  assumes "verifyFirebaseToken v req = Next d"
  shows "route_admin_users v st req =
      (case findOne [(''email'', undef_null (email_of d))] (users st) of
         None \<Rightarrow> Reply 403 (message ''Forbidden access.'')
       | Some u \<Rightarrow> if getf u ''role'' = Some (JStr ''admin'') then admin_users st req
                   else Reply 403 (message ''Forbidden access.''))"
    and "route_fundraiser_payments v st req =
      (case findOne [(''email'', undef_null (email_of d))] (users st) of
         None \<Rightarrow> Reply 403 (message ''Forbidden access.'')
       | Some u \<Rightarrow> if getf u ''role'' = Some (JStr ''admin'') then fundraiser_payments st
                   else Reply 403 (message ''Forbidden access.''))"
  using assms
  by (auto simp: route_admin_users_def route_fundraiser_payments_def verifyAdmin_def strict_eq_str
      split: option.splits)

text \<open>
  The admin user update does not depend on who calls: neither the header nor the provider
  enters its result.
\<close>

lemma admin_patch_ignores_identity:
  "route_patch_admin_users v st uid (req\<lparr>authorization := h\<rparr>) =
   route_patch_admin_users v' st uid req"
  by (simp add: route_patch_admin_users_def patch_admin_users_def)

text \<open>
  Claim C4 on the admin user update. \<open>PATCH /admin/users/:id\<close> is registered without any
  middleware: a request with no \<open>Authorization\<close> header at all promotes the stored donor
  account to \<open>admin\<close> and is answered with 200, while the same request on
  \<open>GET /admin/users\<close> is answered with 401.
\<close>

theorem admin_user_update_unguarded:
  "route_patch_admin_users provider accounts_store ''000000000000000000000001'' anonymous_promotion =
     (users_store
        [account 1 ''a@x.org'' ''admin'' ''active'',
         account 2 ''root@x.org'' ''admin'' ''active'',
         account 3 ''b@x.org'' ''donor'' ''blocked''],
      Reply 200 (JObj [(''message'', JStr ''User updated successfully.''),
                       (''modifiedCount'', JNum 1)]))
   \<and> route_admin_users provider accounts_store anonymous_promotion =
       Reply 401 (message ''Unauthorized access'')"
  by code_simp

subsection \<open>Claiming a donation request\<close>

text \<open>
  The handler of \<open>part_000\<close> performs the conditional update: it writes exactly when a
  document with the identifier and status \<open>pending\<close> exists, and otherwise leaves the store
  as it is and answers 400.
\<close>

lemma claim_patch_modifies:
  assumes "matches [(''_id'', JOid oid), (''status'', JStr ''pending'')] d"
  shows "set_fields ((''status'', JStr ''inprogress'') # p) d \<noteq> d"
proof
  assume eq: "set_fields ((''status'', JStr ''inprogress'') # p) d = d"
  have "getf (set_fields ((''status'', JStr ''inprogress'') # p) d) ''status''
      = Some (JStr ''inprogress'')"
    by (simp add: getf_setf)
  with eq have "getf d ''status'' = Some (JStr ''inprogress'')" by simp
  with assms show False by (simp add: matches_def)
qed

lemma donate_part000_conditional:
  assumes "new_ObjectId rid = Some oid"
  shows "case findOne [(''_id'', JOid oid), (''status'', JStr ''pending'')] (requests st) of
      None \<Rightarrow> donate_part000 st rid req =
        (st, Reply 400 (message ''Unable to confirm donation. It may have already been claimed.''))
    | Some d \<Rightarrow> \<exists>i<length (requests st). requests st ! i = d \<and>
        donate_part000 st rid req =
          (st\<lparr>requests := (requests st)[i := set_fields
              [(''status'', JStr ''inprogress''),
               (''donar'', JObj [(''donorName'', undef_null_jv (getf (body req) ''donorName'')),
                                 (''donorEmail'', undef_null_jv (getf (body req) ''donorEmail''))])] d]\<rparr>,
           Reply 200 (message ''Donation confirmed. Status set to inprogress.''))"
proof (cases "findOne [(''_id'', JOid oid), (''status'', JStr ''pending'')] (requests st)")
  case None
  with assms show ?thesis
    by (simp add: donate_part000_def Let_def updateOne_none)
next
  case (Some d)
  let ?p = "[(''status'', JStr ''inprogress''),
               (''donar'', JObj [(''donorName'', undef_null_jv (getf (body req) ''donorName'')),
                                 (''donorEmail'', undef_null_jv (getf (body req) ''donorEmail''))])]"
  from updateOne_some [OF Some, of ?p] obtain i where i: "i < length (requests st)"
    "requests st ! i = d" "matches [(''_id'', JOid oid), (''status'', JStr ''pending'')] d"
    "updateOne [(''_id'', JOid oid), (''status'', JStr ''pending'')] ?p (requests st) =
       ((requests st)[i := set_fields ?p d],
        \<lparr>matchedCount = 1, modifiedCount = (if set_fields ?p d = d then 0 else 1)\<rparr>)"
    by blast
  have "set_fields ?p d \<noteq> d" using i(3) by (rule claim_patch_modifies)
  with i assms Some show ?thesis
    by (auto simp: donate_part000_def Let_def simp del: set_fields.simps intro!: exI [of _ i])
qed

text \<open>
  In \<open>part_000\<close> a request that has left \<open>pending\<close> is final: no sequence of creations and
  claims changes the document, so its donor sub-record is never replaced.
\<close>

lemma donate_part000_keeps:
  assumes "i < length (requests st)" "left_pending (requests st ! i)"
  shows "i < length (requests (fst (donate_part000 st rid req)))
    \<and> requests (fst (donate_part000 st rid req)) ! i = requests st ! i"
proof (cases "new_ObjectId rid")
  case None
  with assms show ?thesis by (simp add: donate_part000_def)
next
  case (Some oid)
  let ?flt = "[(''_id'', JOid oid), (''status'', JStr ''pending'')]"
  have nm: "\<not> matches ?flt (requests st ! i)"
    using assms(2) by (simp add: matches_def left_pending_def)
  have "requests (fst (donate_part000 st rid req)) =
      fst (updateOne ?flt [(''status'', JStr ''inprogress''),
               (''donar'', JObj [(''donorName'', undef_null_jv (getf (body req) ''donorName'')),
                                 (''donorEmail'', undef_null_jv (getf (body req) ''donorEmail''))])]
            (requests st))"
    using Some by (simp add: donate_part000_def Let_def split: prod.splits)
  then show ?thesis
    using updateOne_other [OF nm assms(1)] assms(1) by (simp add: updateOne_length)
qed

lemma create_keeps:
  assumes "i < length (requests st)"
  shows "i < length (requests (fst (create_donation_request now nid st req)))
    \<and> requests (fst (create_donation_request now nid st req)) ! i = requests st ! i"
  using assms
  by (auto simp: create_donation_request_def Let_def nth_append split: option.splits
      dest!: insertOne_Some)

lemma part000_left_pending_is_final:
  "i < length (requests st) \<Longrightarrow> left_pending (requests st ! i) \<Longrightarrow>
     i < length (requests (foldl step000 st ops))
     \<and> requests (foldl step000 st ops) ! i = requests st ! i"
proof (induction ops arbitrary: st)
  case Nil
  then show ?case by simp
next
  case (Cons a ops)
  have step: "i < length (requests (step000 st a))
      \<and> requests (step000 st a) ! i = requests st ! i"
  proof (cases a)
    case (Create now nid req)
    with Cons.prems show ?thesis using create_keeps by simp
  next
    case (Claim rid req)
    with Cons.prems show ?thesis using donate_part000_keeps by simp
  qed
  with Cons.prems have "left_pending (requests (step000 st a) ! i)" by simp
  with step Cons.IH [of "step000 st a"] show ?case by simp
qed

lemma donate_part000_on_claimed:
  "donate_part000 (requests_store [request_doc ''inprogress'' (donor_rec ''Ann'' ''ann@x.org'')])
       ''000000000000000000000001'' (claim_by ''Bob'' ''bob@x.org'') =
     (requests_store [request_doc ''inprogress'' (donor_rec ''Ann'' ''ann@x.org'')],
      Reply 400 (message ''Unable to confirm donation. It may have already been claimed.''))"
  by code_simp

text \<open>
  The handler of \<open>src/index.js\<close> writes the donor of the body into the request with the
  identifier whatever its stored status is.
\<close>

lemma donate_overwrites_donor:
  assumes "new_ObjectId rid = Some oid"
    and "findOne [(''_id'', JOid oid)] (requests st) = Some d"
    and "getf (body req) ''donorName'' = Some n" "truthy (Some n)"
    and "getf (body req) ''donorEmail'' = Some e" "truthy (Some e)"
  shows "\<exists>i<length (requests st). requests st ! i = d \<and>
     (\<exists>d'. requests (fst (donate st rid req)) = (requests st)[i := d']
        \<and> getf d' ''donor'' = Some (JObj [(''name'', n), (''email'', e)]))"
proof -
  define p where "p = field_if ''status'' (getf (body req) ''status'')
      @ donor_if (getf (body req) ''donorName'') (getf (body req) ''donorEmail'')"
  have don: "donor_if (getf (body req) ''donorName'') (getf (body req) ''donorEmail'') =
      [(''donor'', JObj [(''name'', n), (''email'', e)])]"
    using assms(3-6) by simp
  have pd: "getf p ''donor'' = Some (JObj [(''name'', n), (''email'', e)])"
    unfolding p_def don by (cases "getf (body req) ''status''") (auto simp: getf_def)
  have ne: "length p \<noteq> 0" unfolding p_def don by simp
  from updateOne_some [OF assms(2), of p] obtain i where i: "i < length (requests st)"
    "requests st ! i = d"
    "updateOne [(''_id'', JOid oid)] p (requests st) =
       ((requests st)[i := set_fields p d],
        \<lparr>matchedCount = 1, modifiedCount = (if set_fields p d = d then 0 else 1)\<rparr>)"
    by blast
  have "donate st rid req =
      (let (coll, updateResult) = updateOne [(''_id'', JOid oid)] p (requests st)
       in if modifiedCount updateResult = 0
          then (st\<lparr>requests := coll\<rparr>,
                Reply 400 (message
                  ''No changes applied. The request might not exist or is already updated.''))
          else (st\<lparr>requests := coll\<rparr>,
                Reply 200 (message ''Donation request updated successfully.'')))"
    unfolding donate_def Let_def p_def [symmetric] using ne assms(1) by simp
  then have "requests (fst (donate st rid req)) = (requests st)[i := set_fields p d]"
    by (simp add: i(3))
  moreover have "getf (set_fields p d) ''donor'' = Some (JObj [(''name'', n), (''email'', e)])"
    by (simp add: getf_set_fields pd)
  ultimately show ?thesis using i(1,2) by blast
qed

text \<open>
  Claim C1 on \<open>src/index.js\<close>. The handler filters on the identifier alone, so a second
  claim on a request that is already \<open>inprogress\<close> with donor Ann is applied: the donor
  sub-record becomes Bob's and the reply is the success reply.
\<close>

theorem second_claim_replaces_donor:
  "donate (requests_store [request_doc ''pending'' []]) ''000000000000000000000001''
       (claim_by ''Ann'' ''ann@x.org'') =
     (requests_store [request_doc ''inprogress'' (donor_rec ''Ann'' ''ann@x.org'')],
      Reply 200 (message ''Donation request updated successfully.''))
   \<and> donate (requests_store [request_doc ''inprogress'' (donor_rec ''Ann'' ''ann@x.org'')])
       ''000000000000000000000001'' (claim_by ''Bob'' ''bob@x.org'') =
     (requests_store [request_doc ''inprogress'' (donor_rec ''Bob'' ''bob@x.org'')],
      Reply 200 (message ''Donation request updated successfully.''))"
  by code_simp

text \<open>
  Claim C2 on \<open>src/index.js\<close>. The update is not conditional on the stored status: a claim
  on a request whose status is \<open>canceled\<close> moves it to \<open>inprogress\<close>, attaches the donor
  and is answered with 200 instead of failing and leaving the request unchanged.
\<close>

theorem claim_on_canceled_request_is_applied:
  "donate (requests_store [request_doc ''canceled'' []]) ''000000000000000000000001''
       (claim_by ''Bob'' ''bob@x.org'') =
     (requests_store [request_doc ''inprogress'' (donor_rec ''Bob'' ''bob@x.org'')],
      Reply 200 (message ''Donation request updated successfully.''))"
  by code_simp

subsection \<open>Profile update writes the patch\<close>



subsection \<open>Blog update and the update timestamp\<close>




subsection \<open>Pagination of a requester's list\<close>

lemma requester_query_matches:
  assumes "map_of (query req) ''email'' = Some e"
  shows "matches (requester_query req) d =
     (field_matches (getf d ''requesterEmail'') (JStr e)
      \<and> (case map_of (query req) ''status'' of
            None \<Rightarrow> True
          | Some s \<Rightarrow> s = [] \<or> field_matches (getf d ''status'') (JStr s)))"
  using assms by (auto simp: requester_query_def matches_def split: option.splits)



subsection \<open>Total pages of the admin listings\<close>

text \<open>
  Claim C10. For a positive integer page and page size (with the page size, the skip and
  the collection sizes within \<open>int32_max\<close>) and any status filter, both admin
  listings return the page of the documents matching the filter, but \<open>totalPages\<close> is the
  ceiling of the number of all documents of the collection divided by the page size. This
  is at least the number of pages of the filtered result, and can exceed it: with three
  accounts of which one is blocked, \<open>status=blocked\<close> and \<open>limit=1\<close> give \<open>totalPages\<close> 3
  while only one page has a result (page 2 is empty).
\<close>

theorem admin_total_pages_ignore_filter:
  assumes "parseInt (param req ''page'' ''1'') = Fin p" "1 \<le> p"
    and "parseInt (param req ''limit'' ''10'') = Fin l" "1 \<le> l"
    and "toNumber (param req ''limit'' ''10'') = Fin l"
    and "l \<le> int32_max" "(p - 1) * l \<le> int32_max"
    and "int (length (users st)) \<le> int32_max" "int (length (requests st)) \<le> int32_max"
  shows "admin_users st req =
      Reply 200 (JObj
        [(''users'', JArr (map JObj
            (take (nat l) (drop (nat ((p - 1) * l)) (find_docs (status_filter req) (users st)))))),
         (''totalPages'', JNum \<lceil>real (length (users st)) / real_of_int l\<rceil>),
         (''total'', JNum (int (length (users st))))])
    \<and> admin_donation_requests st req =
      Reply 200 (JObj
        [(''requests'', JArr (map JObj
            (take (nat l) (drop (nat ((p - 1) * l)) (find_docs (status_filter req) (requests st)))))),
         (''totalPages'', JNum \<lceil>real (length (requests st)) / real_of_int l\<rceil>)])
    \<and> \<lceil>real (length (find_docs (status_filter req) (users st))) / real_of_int l\<rceil>
        \<le> \<lceil>real (length (users st)) / real_of_int l\<rceil>
    \<and> \<lceil>real (length (find_docs (status_filter req) (requests st))) / real_of_int l\<rceil>
        \<le> \<lceil>real (length (requests st)) / real_of_int l\<rceil>"
proof -
  have mono: "\<lceil>real (length (find_docs flt coll)) / real_of_int l\<rceil>
        \<le> \<lceil>real (length coll) / real_of_int l\<rceil>" for flt and coll :: "doc list"
    using assms(4) length_find_docs [of flt coll]
    by (intro ceiling_mono divide_right_mono) auto
  have "admin_users st req =
      Reply 200 (JObj
        [(''users'', JArr (map JObj
            (take (nat l) (drop (nat ((p - 1) * l)) (find_docs (status_filter req) (users st)))))),
         (''totalPages'', JNum \<lceil>real (length (users st)) / real_of_int l\<rceil>),
         (''total'', JNum (int (length (users st))))])"
    using assms(1-5) by (simp add: admin_users_def Let_def countDocuments_def find_docs_all
        skip_limit_page ceil_quot_pos)
  moreover have "admin_donation_requests st req =
      Reply 200 (JObj
        [(''requests'', JArr (map JObj
            (take (nat l) (drop (nat ((p - 1) * l)) (find_docs (status_filter req) (requests st)))))),
         (''totalPages'', JNum \<lceil>real (length (requests st)) / real_of_int l\<rceil>)])"
    using assms(1-5) by (simp add: admin_donation_requests_def Let_def countDocuments_def find_docs_all
        skip_limit_page ceil_quot_pos)
  ultimately show ?thesis using mono by blast
qed

theorem admin_total_pages_ignore_filter_witness:
  "admin_users accounts_store (with_query [(''status'', ''blocked''), (''limit'', ''1'')]) =
     Reply 200 (JObj [(''users'', JArr [JObj (account 3 ''b@x.org'' ''donor'' ''blocked'')]),
                      (''totalPages'', JNum 3), (''total'', JNum 3)])
   \<and> admin_users accounts_store
        (with_query [(''status'', ''blocked''), (''limit'', ''1''), (''page'', ''2'')]) =
     Reply 200 (JObj [(''users'', JArr []), (''totalPages'', JNum 3), (''total'', JNum 3)])
   \<and> length (find_docs (status_filter (with_query [(''status'', ''blocked''), (''limit'', ''1'')]))
        (users accounts_store)) = 1"
proof -
  let ?r = "with_query [(''status'', ''blocked''), (''limit'', ''1'')]"
  let ?r2 = "with_query [(''status'', ''blocked''), (''limit'', ''1''), (''page'', ''2'')]"
  have h: "parseInt (param ?r ''page'' ''1'') = Fin 1" "parseInt (param ?r ''limit'' ''10'') = Fin 1"
    "toNumber (param ?r ''limit'' ''10'') = Fin 1"
    by code_simp+
  have h2: "parseInt (param ?r2 ''page'' ''1'') = Fin 2" "parseInt (param ?r2 ''limit'' ''10'') = Fin 1"
    "toNumber (param ?r2 ''limit'' ''10'') = Fin 1"
    by code_simp+
  have f: "find_docs (status_filter ?r) (users accounts_store) = [account 3 ''b@x.org'' ''donor'' ''blocked'']"
    "find_docs (status_filter ?r2) (users accounts_store) = [account 3 ''b@x.org'' ''donor'' ''blocked'']"
    by code_simp+
  have n: "length (users accounts_store) = 3" by code_simp
  have b: "1 \<le> int32_max" "(1 - 1) * 1 \<le> int32_max" "(2 - 1) * 1 \<le> int32_max"
    "int (length (users accounts_store)) \<le> int32_max"
    "int (length (requests accounts_store)) \<le> int32_max"
    by code_simp+
  from admin_total_pages_ignore_filter [OF h(1) _ h(2) _ h(3) b(1,2,4,5)]
    admin_total_pages_ignore_filter [OF h2(1) _ h2(2) _ h2(3) b(1,3,4,5)]
  show ?thesis by (simp add: f n)
qed

end
